theory Spec2Isabelle
  imports Main "HOL-Library.Word"
begin

section \<open>Strings\<close>

text \<open>
  A JavaScript string is a sequence of 16-bit code units. None of the patterns of
  \<^verbatim>\<open>markdownToMrkdwn\<close> carries the \<^verbatim>\<open>u\<close> flag, so the regular expressions read the
  string one code unit at a time. \<open>ascii\<close> embeds an ASCII literal.
\<close>

type_synonym jschar = "16 word"
type_synonym jsstring = "jschar list"

definition ascii :: "string \<Rightarrow> jsstring" where
  "ascii s = map of_char s"

text \<open>The bullet U+2022 of the list rules.\<close>

definition bullet :: jschar where
  "bullet = 0x2022"

text \<open>
  LineTerminator of ECMAScript: LF, CR, U+2028, U+2029. It decides what \<^verbatim>\<open>.\<close> refuses
  and where \<^verbatim>\<open>^\<close> and \<^verbatim>\<open>$\<close> hold under the \<^verbatim>\<open>m\<close> flag.
\<close>

definition line_terminator :: "jschar \<Rightarrow> bool" where
  "line_terminator c = (c = 0x0A \<or> c = 0x0D \<or> c = 0x2028 \<or> c = 0x2029)"

text \<open>
  The class \<^verbatim>\<open>\s\<close>, which is also what \<^verbatim>\<open>String.prototype.trim\<close> strips: WhiteSpace
  (TAB, VT, FF, SP, NBSP, U+FEFF and the space separators) and LineTerminator.
\<close>

definition white_space :: "jschar \<Rightarrow> bool" where
  "white_space c =
     (c = 0x09 \<or> c = 0x0B \<or> c = 0x0C \<or> c = 0x20 \<or> c = 0xA0 \<or> c = 0x1680
      \<or> (0x2000 \<le> c \<and> c \<le> 0x200A) \<or> c = 0x202F \<or> c = 0x205F \<or> c = 0x3000
      \<or> c = 0xFEFF \<or> line_terminator c)"

definition digit :: "jschar \<Rightarrow> bool" where
  "digit c = (0x30 \<le> c \<and> c \<le> 0x39)"

text \<open>\<^verbatim>\<open>s.trim()\<close>\<close>

definition trim :: "jsstring \<Rightarrow> jsstring" where
  "trim s = rev (dropWhile white_space (rev (dropWhile white_space s)))"

text \<open>
  \<^verbatim>\<open>s.slice(3, -3)\<close>: from index 3 up to three code units before the end, empty when
  the string is shorter than that (the subtraction on \<open>nat\<close> stops at 0, as the
  clamping of \<^verbatim>\<open>slice\<close> does).
\<close>

definition slice_3_minus3 :: "jsstring \<Rightarrow> jsstring" where
  "slice_3_minus3 s = take (length s - 3 - 3) (drop 3 s)"

section \<open>Regular expressions\<close>

text \<open>
  The fragment of the ECMAScript pattern language that the source uses: single
  characters and classes, the assertions \<^verbatim>\<open>^\<close> and \<^verbatim>\<open>$\<close> (every pattern that has one
  carries the \<^verbatim>\<open>m\<close> flag, so they are the multiline ones), sequence, the greedy and the
  lazy star, and capture groups. \<^verbatim>\<open>r+\<close> is \<^verbatim>\<open>rr*\<close>.
\<close>

datatype atom =
    Lit jschar       \<comment> \<open>a literal or escaped character\<close>
  | Dot              \<comment> \<open>\<^verbatim>\<open>.\<close>: anything but a line terminator\<close>
  | Space            \<comment> \<open>\<^verbatim>\<open>\s\<close>\<close>
  | Digit            \<comment> \<open>\<^verbatim>\<open>\d\<close>\<close>
  | AnyUnit          \<comment> \<open>\<^verbatim>\<open>[\s\S]\<close>\<close>
  | Not jschar       \<comment> \<open>\<^verbatim>\<open>[^c]\<close>\<close>

fun atom_ok :: "atom \<Rightarrow> jschar \<Rightarrow> bool" where
  "atom_ok (Lit a) c = (c = a)"
| "atom_ok Dot c = (\<not> line_terminator c)"
| "atom_ok Space c = white_space c"
| "atom_ok Digit c = digit c"
| "atom_ok AnyUnit c = True"
| "atom_ok (Not a) c = (c \<noteq> a)"

datatype regex =
    Eps
  | Atom atom
  | Bol                  \<comment> \<open>\<^verbatim>\<open>^\<close> with the \<^verbatim>\<open>m\<close> flag\<close>
  | Eol                  \<comment> \<open>\<^verbatim>\<open>$\<close> with the \<^verbatim>\<open>m\<close> flag\<close>
  | Seq regex regex
  | Star regex           \<comment> \<open>\<^verbatim>\<open>r*\<close>\<close>
  | Lazy regex           \<comment> \<open>\<^verbatim>\<open>r*?\<close>\<close>
  | Group nat regex      \<comment> \<open>the n-th pair of capturing parentheses\<close>

text \<open>
  A matcher state: the code unit before the current position (none at index 0), the
  input from the current position on, and the captures made so far.
\<close>

datatype mstate = MState (prev: "jschar option") (rest: jsstring) (caps: "nat \<Rightarrow> jsstring option")

definition at_line_start :: "jschar option \<Rightarrow> bool" where
  "at_line_start p = (case p of None \<Rightarrow> True | Some c \<Rightarrow> line_terminator c)"

definition at_line_end :: "jsstring \<Rightarrow> bool" where
  "at_line_end s = (case s of [] \<Rightarrow> True | c # _ \<Rightarrow> line_terminator c)"

text \<open>
  \<open>rmatch r st\<close> lists the states in which a match of \<open>r\<close> begun at \<open>st\<close> can end, in
  the order in which the backtracking matcher of ECMAScript tries them: its first
  element is the match that the engine reports. A greedy star tries one more
  iteration before stopping, a lazy one stops first; an iteration that consumes
  nothing is abandoned (RepeatMatcher, step 2.b).
\<close>

function rmatch :: "regex \<Rightarrow> mstate \<Rightarrow> mstate list" where
  "rmatch Eps st = [st]"
| "rmatch (Atom a) st =
     (case rest st of
        [] \<Rightarrow> []
      | c # cs \<Rightarrow> if atom_ok a c then [MState (Some c) cs (caps st)] else [])"
| "rmatch Bol st = (if at_line_start (prev st) then [st] else [])"
| "rmatch Eol st = (if at_line_end (rest st) then [st] else [])"
| "rmatch (Seq r1 r2) st = concat (map (rmatch r2) (rmatch r1 st))"
| "rmatch (Star r) st =
     concat (map (\<lambda>st'. if length (rest st') < length (rest st)
                          then rmatch (Star r) st' else [])
                 (rmatch r st)) @ [st]"
| "rmatch (Lazy r) st =
     st # concat (map (\<lambda>st'. if length (rest st') < length (rest st)
                               then rmatch (Lazy r) st' else [])
                      (rmatch r st))"
| "rmatch (Group n r) st =
     map (\<lambda>st'. MState (prev st') (rest st')
                   ((caps st')(n \<mapsto> take (length (rest st) - length (rest st')) (rest st))))
         (rmatch r st)"
  by pat_completeness auto
termination
  by (relation "inv_image (less_than <*lex*> less_than) (\<lambda>(r, st). (size r, length (rest st)))")
     auto

fun Cat :: "regex list \<Rightarrow> regex" where
  "Cat [] = Eps"
| "Cat [r] = r"
| "Cat (r # rs) = Seq r (Cat rs)"

definition Plus :: "regex \<Rightarrow> regex" where
  "Plus r = Seq r (Star r)"

definition lit :: "string \<Rightarrow> regex" where
  "lit s = Cat (map (\<lambda>c. Atom (Lit (of_char c))) s)"

section \<open>String.prototype.replace with a global pattern\<close>

text \<open>
  \<open>replace_from\<close> is the loop of \<^verbatim>\<open>RegExp.prototype[Symbol.replace]\<close> for a pattern with
  the \<^verbatim>\<open>g\<close> flag. At the current index it tries the pattern; on failure the code unit
  there is copied and the search moves one unit on; on success the replacement is
  emitted and the search goes on behind the match, or one unit further on when the
  match was empty. \<open>f\<close> gets the matched text and the captures.
\<close>

function replace_from ::
  "regex \<Rightarrow> (jsstring \<Rightarrow> (nat \<Rightarrow> jsstring option) \<Rightarrow> jsstring) \<Rightarrow> jschar option \<Rightarrow> jsstring \<Rightarrow> jsstring"
where
  "replace_from r f p s =
     (case rmatch r (MState p s Map.empty) of
        [] \<Rightarrow> (case s of [] \<Rightarrow> [] | c # cs \<Rightarrow> c # replace_from r f (Some c) cs)
      | m # _ \<Rightarrow>
          (let k = length s - length (rest m) in
           if k = 0
           then f [] (caps m) @ (case s of [] \<Rightarrow> [] | c # cs \<Rightarrow> c # replace_from r f (Some c) cs)
           else f (take k s) (caps m) @ replace_from r f (prev m) (rest m)))"
  by pat_completeness auto
termination
  by (relation "measure (\<lambda>(r, f, p, s). length s)") auto

declare replace_from.simps [simp del]

text \<open>
  A replacement string, split at its \<^verbatim>\<open>$n\<close> references. A group that did not take
  part in the match is replaced by the empty string.
\<close>

datatype piece = Txt jsstring | Ref nat

fun substitute :: "piece list \<Rightarrow> (nat \<Rightarrow> jsstring option) \<Rightarrow> jsstring" where
  "substitute [] cs = []"
| "substitute (Txt t # ps) cs = t @ substitute ps cs"
| "substitute (Ref n # ps) cs = (case cs n of None \<Rightarrow> [] | Some t \<Rightarrow> t) @ substitute ps cs"

definition replace :: "regex \<Rightarrow> piece list \<Rightarrow> jsstring \<Rightarrow> jsstring" where
  "replace r ps s = replace_from r (\<lambda>m cs. substitute ps cs) None s"

definition replace_fn :: "regex \<Rightarrow> (jsstring \<Rightarrow> jsstring) \<Rightarrow> jsstring \<Rightarrow> jsstring" where
  "replace_fn r g s = replace_from r (\<lambda>m cs. g m) None s"

section \<open>The text transformer\<close>

text \<open>The patterns of \<^verbatim>\<open>markdownToMrkdwn\<close>, in the order of the source.\<close>

definition re_blank_lines :: regex where   \<comment> \<open>\<^verbatim>\<open>/\n\s*\n/gm\<close>\<close>
  "re_blank_lines = Cat [Atom (Lit 0x0A), Star (Atom Space), Atom (Lit 0x0A)]"

definition re_leading_space :: regex where   \<comment> \<open>\<^verbatim>\<open>/^\s*/gm\<close>\<close>
  "re_leading_space = Cat [Bol, Star (Atom Space)]"

definition re_header :: "string \<Rightarrow> regex" where   \<comment> \<open>\<^verbatim>\<open>/^# (.*$)/gm\<close>, \<^verbatim>\<open>/^## (.*$)/gm\<close>, \<^verbatim>\<open>/^### (.*$)/gm\<close>\<close>
  "re_header hashes = Cat [Bol, lit hashes, lit '' '', Group 1 (Cat [Star (Atom Dot), Eol])]"

definition re_bold :: regex where   \<comment> \<open>\<^verbatim>\<open>/\*\*(.*?)\*\*/g\<close>\<close>
  "re_bold = Cat [lit ''**'', Group 1 (Lazy (Atom Dot)), lit ''**'']"

definition re_italic :: regex where   \<comment> \<open>\<^verbatim>\<open>/\_(.*?)\_/g\<close>\<close>
  "re_italic = Cat [lit ''_'', Group 1 (Lazy (Atom Dot)), lit ''_'']"

definition re_inline_code :: regex where   \<comment> \<open>a backtick, \<^verbatim>\<open>([^`]+)\<close>, a backtick\<close>
  "re_inline_code = Cat [lit ''`'', Group 1 (Plus (Atom (Not (of_char CHR ''`'')))), lit ''`'']"

definition re_code_block :: regex where   \<comment> \<open>three backticks, \<^verbatim>\<open>[\s\S]*?\<close>, three backticks\<close>
  "re_code_block = Cat [lit ''```'', Lazy (Atom AnyUnit), lit ''```'']"

definition re_link :: regex where   \<comment> \<open>\<^verbatim>\<open>/\[(.*?)\]\((.*?)\)/g\<close>\<close>
  "re_link = Cat [lit ''['', Group 1 (Lazy (Atom Dot)), lit '']('', Group 2 (Lazy (Atom Dot)), lit '')'']"

definition re_unordered :: regex where   \<comment> \<open>\<^verbatim>\<open>/^\* (.*$)/gm\<close>\<close>
  "re_unordered = Cat [Bol, lit ''* '', Group 1 (Cat [Star (Atom Dot), Eol])]"

definition re_ordered :: regex where   \<comment> \<open>\<^verbatim>\<open>/^\d+\. (.*$)/gm\<close>\<close>
  "re_ordered = Cat [Bol, Plus (Atom Digit), lit ''. '', Group 1 (Cat [Star (Atom Dot), Eol])]"

definition markdownToMrkdwn :: "jsstring \<Rightarrow> jsstring" where
  "markdownToMrkdwn markdown =
     (let mrkdwn = markdown;
          mrkdwn = replace re_blank_lines [Txt [0x0A, 0x0A]] mrkdwn;
          mrkdwn = replace re_leading_space [] mrkdwn;
          mrkdwn = replace (re_header ''#'') [Txt (ascii ''*''), Ref 1, Txt (ascii ''*'')] mrkdwn;
          mrkdwn = replace (re_header ''##'') [Txt (ascii ''*''), Ref 1, Txt (ascii ''*'')] mrkdwn;
          mrkdwn = replace (re_header ''###'') [Txt (ascii ''*''), Ref 1, Txt (ascii ''*'')] mrkdwn;
          mrkdwn = replace (re_header ''###'') [Txt (ascii ''*''), Ref 1, Txt (ascii ''*'')] mrkdwn;
          mrkdwn = replace re_bold [Txt (ascii ''*''), Ref 1, Txt (ascii ''*'')] mrkdwn;
          mrkdwn = replace re_italic [Txt (ascii ''_''), Ref 1, Txt (ascii ''_'')] mrkdwn;
          mrkdwn = replace re_inline_code [Txt (ascii ''`''), Ref 1, Txt (ascii ''`'')] mrkdwn;
          mrkdwn = replace_fn re_code_block
                     (\<lambda>match. ascii ''```'' @ trim (slice_3_minus3 match) @ ascii ''```'') mrkdwn;
          mrkdwn = replace re_link
                     [Txt (ascii ''<''), Ref 2, Txt (ascii ''|''), Ref 1, Txt (ascii ''>'')] mrkdwn;
          mrkdwn = replace re_unordered [Txt (bullet # ascii '' ''), Ref 1] mrkdwn;
          mrkdwn = replace re_ordered [Txt (bullet # ascii '' ''), Ref 1] mrkdwn
      in mrkdwn)"

section \<open>Data model\<close>

text \<open>
  The types of \<^verbatim>\<open>schema.ts\<close>. A field that TypeScript marks optional is an \<open>option\<close>.
  \<^verbatim>\<open>dataType\<close> and \<^verbatim>\<open>block\<close> are strings at run time and are compared with \<^verbatim>\<open>===\<close>, so
  they stay strings here. The \<^verbatim>\<open>block\<close> field of the outgoing message and of the hook
  is read by \<^verbatim>\<open>postMessage\<close> and \<^verbatim>\<open>processMessage\<close>; the copy of \<^verbatim>\<open>schema.ts\<close> at hand does
  not declare it yet, and it is taken from the specification's data model
  (\<^verbatim>\<open>block?\<close>, selecting \<^verbatim>\<open>section\<close> or \<^verbatim>\<open>context\<close>).
\<close>

datatype payload = PString jsstring | PBuffer "8 word list"

record IncomingMessage =
  messageId :: jsstring
  channelId :: jsstring
  raw :: jsstring
  message :: jsstring
  threadId :: "jsstring option"

record OutgoingMessage =
  out_channelId :: jsstring
  data :: payload
  dataType :: jsstring
  out_threadId :: "jsstring option"
  block :: "jsstring option"

record Reactions =
  loading :: "jsstring option"
  success :: "jsstring option"
  failed :: "jsstring option"

text \<open>
  A thrown value: whether it is an instance of \<^verbatim>\<open>Error\<close>, and its \<^verbatim>\<open>message\<close> property
  when it has one (a string, as the \<^verbatim>\<open>Error\<close> constructor makes it).
\<close>

record fault =
  is_Error :: bool
  err_message :: "jsstring option"

text \<open>
  The handler is the application's code. It is taken as a function from the incoming
  message to the settlement of the promise it returns: rejected with a fault, or
  fulfilled with a string or a buffer. Platform calls that a handler makes on its own
  account are not part of what is recorded below.
\<close>

record CommandHook =
  isSync :: bool
  hook_dataType :: jsstring
  hook_block :: "jsstring option"
  handler :: "IncomingMessage \<Rightarrow> fault + payload"

record SlackQnaArgs =
  slackBotToken :: jsstring
  slackAppToken :: jsstring
  args_botUserId :: jsstring
  args_reactions :: "Reactions option"

record SlackQna =
  reactions :: Reactions
  commandHook :: "CommandHook option"
  botUserId :: jsstring

text \<open>Truthiness of a value of type \<^verbatim>\<open>string | undefined\<close>, and of a handler's result.\<close>

definition truthy :: "jsstring option \<Rightarrow> bool" where
  "truthy x = (case x of None \<Rightarrow> False | Some s \<Rightarrow> s \<noteq> [])"

fun truthy_payload :: "payload \<Rightarrow> bool" where
  "truthy_payload (PString s) = (s \<noteq> [])"
| "truthy_payload (PBuffer b) = True"

text \<open>\<^verbatim>\<open>x || d\<close>\<close>

definition or_default :: "jsstring option \<Rightarrow> jsstring \<Rightarrow> jsstring option" where
  "or_default x d = (if truthy x then x else Some d)"

text \<open>\<^verbatim>\<open>args.reactions?.field\<close>\<close>

definition opt_field :: "Reactions option \<Rightarrow> (Reactions \<Rightarrow> jsstring option) \<Rightarrow> jsstring option" where
  "opt_field r field = (case r of None \<Rightarrow> None | Some x \<Rightarrow> field x)"

definition constructor :: "SlackQnaArgs \<Rightarrow> SlackQna" where
  "constructor args =
     \<lparr> reactions =
         \<lparr> loading = or_default (opt_field (args_reactions args) loading) (ascii ''thinking_face''),
           success = or_default (opt_field (args_reactions args) success) (ascii ''white_check_mark''),
           failed = or_default (opt_field (args_reactions args) failed) (ascii ''x'') \<rparr>,
       commandHook = None,
       botUserId = args_botUserId args \<rparr>"

definition registerHandler :: "CommandHook \<Rightarrow> SlackQna \<Rightarrow> SlackQna" where
  "registerHandler hook q = q\<lparr>commandHook := Some hook\<rparr>"

section \<open>The platform client\<close>

text \<open>
  The calls that the adapter makes on \<^verbatim>\<open>slackApp.client\<close>, with their arguments. The
  \<^verbatim>\<open>blocks\<close> argument of \<^verbatim>\<open>chat.postMessage\<close> is absent or a list of layout blocks; both
  kinds of block carry one \<^verbatim>\<open>mrkdwn\<close> text.
\<close>

datatype layout_block = Section jsstring | Context jsstring

datatype call =
    ReactionsAdd jsstring jsstring jsstring
      \<comment> \<open>\<^verbatim>\<open>channel\<close>, \<^verbatim>\<open>name\<close>, \<^verbatim>\<open>timestamp\<close>\<close>
  | ReactionsRemove jsstring jsstring jsstring
      \<comment> \<open>\<^verbatim>\<open>channel\<close>, \<^verbatim>\<open>name\<close>, \<^verbatim>\<open>timestamp\<close>\<close>
  | ChatPostMessage jsstring "jsstring option" "layout_block list option" jsstring
      \<comment> \<open>\<^verbatim>\<open>channel\<close>, \<^verbatim>\<open>thread_ts\<close>, \<^verbatim>\<open>blocks\<close>, \<^verbatim>\<open>text\<close>\<close>
  | FilesUploadV2 jsstring "jsstring option" "8 word list" jsstring
      \<comment> \<open>\<^verbatim>\<open>channel_id\<close>, \<^verbatim>\<open>thread_ts\<close>, \<^verbatim>\<open>file\<close>, \<^verbatim>\<open>filename\<close>\<close>

text \<open>
  The platform decides, from the calls made before and the call made now, whether the
  call's promise is fulfilled (\<open>None\<close>) or rejected with a fault.
\<close>

type_synonym platform = "call list \<Rightarrow> call \<Rightarrow> fault option"

text \<open>
  What can be observed of a run: the platform calls in the order in which they were
  made, and the rejections of promises that nobody awaited. Writing to the console is
  left out.
\<close>

record world =
  calls :: "call list"
  unhandled :: "fault list"

definition init_world :: world where
  "init_world = \<lparr> calls = [], unhandled = [] \<rparr>"

text \<open>
  An awaited call: the result is \<open>None\<close> when it returns and \<open>Some f\<close> when it throws
  \<open>f\<close>.
\<close>

definition invoke :: "platform \<Rightarrow> call \<Rightarrow> world \<Rightarrow> fault option \<times> world" where
  "invoke P c w = (P (calls w) c, w\<lparr>calls := calls w @ [c]\<rparr>)"

section \<open>The outbound dispatcher\<close>

definition layout :: "jsstring option \<Rightarrow> jsstring \<Rightarrow> layout_block" where
  "layout b t = (if b = Some (ascii ''section'') then Section t else Context t)"

text \<open>
  The chain of tests of \<^verbatim>\<open>postMessage\<close>. Each test is a conjunction of a test on
  \<^verbatim>\<open>dataType\<close> and one on the run-time type of \<^verbatim>\<open>data\<close>; the latter is the outer case
  distinction here, and the tests on \<^verbatim>\<open>dataType\<close> keep their order.
\<close>

definition postMessage :: "platform \<Rightarrow> OutgoingMessage \<Rightarrow> world \<Rightarrow> fault option \<times> world" where
  "postMessage P msg w =
     (case data msg of
        PString s \<Rightarrow>
          if dataType msg = ascii ''text'' then
            invoke P (ChatPostMessage (out_channelId msg) (out_threadId msg) None s) w
          else if dataType msg = ascii ''mrkdwn'' then
            invoke P (ChatPostMessage (out_channelId msg) (out_threadId msg)
                        (Some [layout (block msg) s]) s) w
          else if dataType msg = ascii ''markdown'' then
            (let mrkdwn = markdownToMrkdwn s in
             invoke P (ChatPostMessage (out_channelId msg) (out_threadId msg)
                         (Some [layout (block msg) mrkdwn]) s) w)
          else (None, w)
      | PBuffer b \<Rightarrow>
          if dataType msg = ascii ''image'' then
            invoke P (FilesUploadV2 (out_channelId msg) (out_threadId msg) b (ascii ''data.png'')) w
          else if dataType msg = ascii ''file'' then
            invoke P (FilesUploadV2 (out_channelId msg) (out_threadId msg) b (ascii ''data.txt'')) w
          else (None, w))"

section \<open>The lifecycle coordinator\<close>

text \<open>\<^verbatim>\<open>if (name) { await ... }\<close> for an emoji that may be unset or empty.\<close>

definition when_set ::
  "jsstring option \<Rightarrow> (jsstring \<Rightarrow> world \<Rightarrow> fault option \<times> world) \<Rightarrow> world \<Rightarrow> fault option \<times> world"
where
  "when_set x act w =
     (case x of None \<Rightarrow> (None, w) | Some name \<Rightarrow> if name = [] then (None, w) else act name w)"

definition reaction_add :: "platform \<Rightarrow> IncomingMessage \<Rightarrow> jsstring \<Rightarrow> world \<Rightarrow> fault option \<times> world" where
  "reaction_add P inc name w = invoke P (ReactionsAdd (channelId inc) name (messageId inc)) w"

definition reaction_remove :: "platform \<Rightarrow> IncomingMessage \<Rightarrow> jsstring \<Rightarrow> world \<Rightarrow> fault option \<times> world" where
  "reaction_remove P inc name w = invoke P (ReactionsRemove (channelId inc) name (messageId inc)) w"

text \<open>
  A call of an \<^verbatim>\<open>async\<close> function that is not awaited: its body runs up to its first
  \<^verbatim>\<open>await\<close>, so the platform call is made at once, but a rejection reaches nobody.
\<close>

definition detached :: "fault option \<times> world \<Rightarrow> world" where
  "detached rw =
     (case fst rw of
        None \<Rightarrow> snd rw
      | Some f \<Rightarrow> (snd rw)\<lparr>unhandled := unhandled (snd rw) @ [f]\<rparr>)"

text \<open>The body of \<^verbatim>\<open>try\<close>: the protected region.\<close>

definition try_block ::
  "platform \<Rightarrow> SlackQna \<Rightarrow> CommandHook \<Rightarrow> IncomingMessage \<Rightarrow> world \<Rightarrow> fault option \<times> world"
where
  "try_block P q hook inc w =
     (if isSync hook then
        (case handler hook inc of
           Inl err \<Rightarrow> (Some err, w)
         | Inr msg \<Rightarrow>
             (let w' = (if truthy_payload msg
                        then detached (postMessage P
                               \<lparr> out_channelId = channelId inc,
                                 data = msg,
                                 dataType = hook_dataType hook,
                                 out_threadId = Some (messageId inc),
                                 block = hook_block hook \<rparr> w)
                        else w)
              in when_set (success (reactions q)) (reaction_add P inc) w'))
      else
        (case handler hook inc of
           Inl err \<Rightarrow> (Some err, w)
         | Inr msg \<Rightarrow> (None, w)))"

text \<open>The text of the apology, built by the template literal of the \<^verbatim>\<open>catch\<close> clause.\<close>

definition apology :: "fault \<Rightarrow> jsstring" where
  "apology err =
     ascii ''Sorry, something went wrong. (''
     @ (if is_Error err \<and> truthy (err_message err)
        then (case err_message err of Some m \<Rightarrow> m | None \<Rightarrow> [])
        else [])
     @ ascii '')''"

definition catch_block ::
  "platform \<Rightarrow> SlackQna \<Rightarrow> IncomingMessage \<Rightarrow> fault \<Rightarrow> world \<Rightarrow> fault option \<times> world"
where
  "catch_block P q inc err w =
     (case when_set (failed (reactions q)) (reaction_add P inc) w of
        (Some f, w') \<Rightarrow> (Some f, w')
      | (None, w') \<Rightarrow>
          postMessage P
            \<lparr> out_channelId = channelId inc,
              data = PString (apology err),
              dataType = ascii ''text'',
              out_threadId = Some (messageId inc),
              block = None \<rparr> w')"

definition finally_block :: "platform \<Rightarrow> SlackQna \<Rightarrow> IncomingMessage \<Rightarrow> world \<Rightarrow> fault option \<times> world" where
  "finally_block P q inc w = when_set (loading (reactions q)) (reaction_remove P inc) w"

text \<open>
  \<^verbatim>\<open>processMessage\<close>. The result is \<open>None\<close> when its promise is fulfilled and \<open>Some f\<close>
  when it is rejected with \<open>f\<close>. A fault of the \<^verbatim>\<open>try\<close> body goes to the \<^verbatim>\<open>catch\<close> clause;
  the \<^verbatim>\<open>finally\<close> clause runs in every case, and a fault of its own replaces the
  pending one.
\<close>

definition processMessage ::
  "platform \<Rightarrow> SlackQna \<Rightarrow> IncomingMessage \<Rightarrow> world \<Rightarrow> fault option \<times> world"
where
  "processMessage P q inc w =
     (case commandHook q of
        None \<Rightarrow> (None, w)
      | Some hook \<Rightarrow>
          (case when_set (loading (reactions q)) (reaction_add P inc) w of
             (Some f, w1) \<Rightarrow> (Some f, w1)
           | (None, w1) \<Rightarrow>
               (let (r2, w2) = try_block P q hook inc w1;
                    (r3, w3) = (case r2 of
                                  None \<Rightarrow> (None, w2)
                                | Some err \<Rightarrow> catch_block P q inc err w2);
                    (r4, w4) = finally_block P q inc w3
                in (case r4 of Some f \<Rightarrow> Some f | None \<Rightarrow> r3, w4))))"

section \<open>Notions used by the properties\<close>

text \<open>
  The recognised combinations of \<^verbatim>\<open>dataType\<close> and payload, in the words of the
  specification: \<^verbatim>\<open>text\<close>, \<^verbatim>\<open>mrkdwn\<close> or \<^verbatim>\<open>markdown\<close> with a string, \<^verbatim>\<open>image\<close> or \<^verbatim>\<open>file\<close>
  with a binary payload.
\<close>

definition recognized_pair :: "OutgoingMessage \<Rightarrow> bool" where
  "recognized_pair msg =
     (case data msg of
        PString s \<Rightarrow> dataType msg \<in> {ascii ''text'', ascii ''mrkdwn'', ascii ''markdown''}
      | PBuffer b \<Rightarrow> dataType msg \<in> {ascii ''image'', ascii ''file''})"

text \<open>The channel and thread that an outbound send or upload is addressed to.\<close>

fun reply_target :: "call \<Rightarrow> (jsstring \<times> jsstring option) option" where
  "reply_target (ChatPostMessage ch th bs t) = Some (ch, th)"
| "reply_target (FilesUploadV2 ch th file name) = Some (ch, th)"
| "reply_target (ReactionsAdd ch n ts) = None"
| "reply_target (ReactionsRemove ch n ts) = None"

text \<open>
  The calls that one run of \<^verbatim>\<open>processMessage\<close> can make for an incoming message: a
  reaction added with one of the three configured emojis, the loading emoji removed,
  and sends and uploads into the thread of the incoming message's own timestamp.
\<close>

definition lifecycle_call :: "SlackQna \<Rightarrow> IncomingMessage \<Rightarrow> call \<Rightarrow> bool" where
  "lifecycle_call q inc c =
     (case c of
        ReactionsAdd ch n ts \<Rightarrow>
          ch = channelId inc \<and> ts = messageId inc \<and> n \<noteq> [] \<and>
          (Some n = loading (reactions q) \<or> Some n = success (reactions q)
           \<or> Some n = failed (reactions q))
      | ReactionsRemove ch n ts \<Rightarrow>
          ch = channelId inc \<and> ts = messageId inc \<and> n \<noteq> [] \<and> Some n = loading (reactions q)
      | ChatPostMessage ch th bs t \<Rightarrow> ch = channelId inc \<and> th = Some (messageId inc)
      | FilesUploadV2 ch th file name \<Rightarrow> ch = channelId inc \<and> th = Some (messageId inc))"

text \<open>A send or an upload, as opposed to a reaction call.\<close>

definition is_reply :: "call \<Rightarrow> bool" where
  "is_reply c = (reply_target c \<noteq> None)"

text \<open>The call, if it is a send or an upload, goes to this channel and thread.\<close>

definition targets_thread :: "jsstring \<Rightarrow> jsstring option \<Rightarrow> call \<Rightarrow> bool" where
  "targets_thread ch th c = (case reply_target c of None \<Rightarrow> True | Some t \<Rightarrow> t = (ch, th))"

text \<open>\<^verbatim>\<open>s.includes(t)\<close>: the text \<open>t\<close> occurs in \<open>s\<close>.\<close>

fun str_includes :: "jsstring \<Rightarrow> jsstring \<Rightarrow> bool" where
  "str_includes t [] = (t = [])"
| "str_includes t (c # cs) = (take (length t) (c # cs) = t \<or> str_includes t cs)"






definition lastp :: "jschar option \<Rightarrow> jsstring \<Rightarrow> jschar option" where
  "lastp p t = foldl (\<lambda>q c. Some c) p t"

section \<open>Sample runs\<close>

text \<open>A platform on which every call succeeds, and one that refuses every message.\<close>

definition platform_ok :: platform where
  "platform_ok tr c = None"

definition net_fault :: fault where
  "net_fault = \<lparr> is_Error = True, err_message = Some (ascii ''net'') \<rparr>"

definition platform_send_fails :: platform where
  "platform_send_fails tr c =
     (case c of ChatPostMessage ch th bs t \<Rightarrow> Some net_fault | _ \<Rightarrow> None)"

text \<open>A platform that refuses the reaction with one given emoji.\<close>

definition platform_add_fails :: "jsstring \<Rightarrow> platform" where
  "platform_add_fails name tr c =
     (case c of ReactionsAdd ch n ts \<Rightarrow> if n = name then Some net_fault else None | _ \<Rightarrow> None)"

text \<open>A message that arrives inside a thread: its own timestamp differs from the thread's.\<close>

definition ex_incoming :: IncomingMessage where
  "ex_incoming =
     \<lparr> messageId = ascii ''1700000002.000200'',
       channelId = ascii ''C01'',
       raw = ascii ''hello'',
       message = ascii ''hello'',
       threadId = Some (ascii ''1700000001.000100'') \<rparr>"

text \<open>Construction without a reactions configuration.\<close>

definition ex_args :: SlackQnaArgs where
  "ex_args =
     \<lparr> slackBotToken = ascii ''xoxb'',
       slackAppToken = ascii ''xapp'',
       args_botUserId = ascii ''U01'',
       args_reactions = None \<rparr>"

text \<open>A reactions configuration that sets two emojis and leaves the loading one out.\<close>

definition ex_args_no_loading :: SlackQnaArgs where
  "ex_args_no_loading =
     \<lparr> slackBotToken = ascii ''xoxb'',
       slackAppToken = ascii ''xapp'',
       args_botUserId = ascii ''U01'',
       args_reactions = Some \<lparr> loading = None, success = Some (ascii ''tada''),
                               failed = Some (ascii ''warning'') \<rparr> \<rparr>"

definition sync_hook :: "(fault + payload) \<Rightarrow> CommandHook" where
  "sync_hook result =
     \<lparr> isSync = True, hook_dataType = ascii ''text'', hook_block = None,
       handler = (\<lambda>inc. result) \<rparr>"

text \<open>A synchronous hook whose replies are files.\<close>

definition file_hook :: "(fault + payload) \<Rightarrow> CommandHook" where
  "file_hook result =
     \<lparr> isSync = True, hook_dataType = ascii ''file'', hook_block = None,
       handler = (\<lambda>inc. result) \<rparr>"

text \<open>\<^verbatim>\<open>throw new Error('boom')\<close> and \<^verbatim>\<open>throw { message: 'boom' }\<close>\<close>

definition boom_error :: fault where
  "boom_error = \<lparr> is_Error = True, err_message = Some (ascii ''boom'') \<rparr>"

definition boom_object :: fault where
  "boom_object = \<lparr> is_Error = False, err_message = Some (ascii ''boom'') \<rparr>"

definition ex_mismatch :: OutgoingMessage where
  "ex_mismatch =
     \<lparr> out_channelId = ascii ''C01'', data = PString (ascii ''hi''), dataType = ascii ''image'',
       out_threadId = None, block = None \<rparr>"

definition ex_markdown :: OutgoingMessage where
  "ex_markdown =
     \<lparr> out_channelId = ascii ''C01'', data = PString (ascii ''# Title''),
       dataType = ascii ''markdown'', out_threadId = None, block = Some (ascii ''section'') \<rparr>"

section \<open>The outbound dispatcher: properties\<close>

lemmas lifecycle_defs =
  processMessage_def try_block_def catch_block_def finally_block_def when_set_def
  reaction_add_def reaction_remove_def invoke_def postMessage_def detached_def

lemmas sample_defs =
  platform_ok_def net_fault_def platform_send_fails_def ex_incoming_def ex_args_def
  ex_args_no_loading_def sync_hook_def file_hook_def platform_add_fails_def boom_error_def boom_object_def
  ex_mismatch_def
  ex_markdown_def constructor_def registerHandler_def or_default_def opt_field_def
  truthy_def init_world_def

text \<open>
  C4. For every outgoing message whose \<^verbatim>\<open>dataType\<close> and payload do not form a
  recognised pair, \<^verbatim>\<open>postMessage\<close> makes no platform call and returns without a fault.
\<close>

theorem postMessage_unrecognized_noop:
  assumes "\<not> recognized_pair msg"
  shows "postMessage P msg w = (None, w)"
  using assms by (simp add: recognized_pair_def postMessage_def split: payload.splits)

theorem postMessage_unrecognized_noop_witness:
  "\<not> recognized_pair ex_mismatch
   \<and> postMessage platform_send_fails ex_mismatch init_world = (None, init_world)"
proof -
  have h: "\<not> recognized_pair ex_mismatch"
    by (simp add: recognized_pair_def ex_mismatch_def ascii_def)
  show ?thesis
    using h postMessage_unrecognized_noop [OF h] by simp
qed

text \<open>
  C10. For every call of \<^verbatim>\<open>postMessage\<close> with \<^verbatim>\<open>dataType\<close> \<^verbatim>\<open>markdown\<close> and a string payload,
  the one platform call is a \<^verbatim>\<open>chat.postMessage\<close> whose single layout block carries
  the transformed text \<^verbatim>\<open>markdownToMrkdwn(data)\<close> and whose top-level \<^verbatim>\<open>text\<close> field
  carries the original string.
\<close>

theorem postMessage_markdown_block_and_fallback:
  assumes "dataType msg = ascii ''markdown''" and "data msg = PString s"
  shows "calls (snd (postMessage P msg w)) =
           calls w @
           [ChatPostMessage (out_channelId msg) (out_threadId msg)
              (Some [if block msg = Some (ascii ''section'')
                     then Section (markdownToMrkdwn s)
                     else Context (markdownToMrkdwn s)])
              s]"
  using assms by (simp add: postMessage_def invoke_def layout_def ascii_def Let_def)

theorem postMessage_markdown_block_and_fallback_witness:
  "dataType ex_markdown = ascii ''markdown'' \<and> data ex_markdown = PString (ascii ''# Title'')
   \<and> calls (snd (postMessage platform_ok ex_markdown init_world)) =
       [ChatPostMessage (ascii ''C01'') None
          (Some [Section (markdownToMrkdwn (ascii ''# Title''))]) (ascii ''# Title'')]"
proof -
  have h1: "dataType ex_markdown = ascii ''markdown''"
    by (simp add: ex_markdown_def)
  have h2: "data ex_markdown = PString (ascii ''# Title'')"
    by (simp add: ex_markdown_def)
  show ?thesis
    using h1 h2 postMessage_markdown_block_and_fallback [OF h1 h2, of platform_ok init_world]
    by (simp add: ex_markdown_def init_world_def)
qed

section \<open>The lifecycle coordinator: properties\<close>

text \<open>
  C3, as the code has it. When all three reactions are configured, the handler raises
  a fault that is an \<^verbatim>\<open>Error\<close> with message \<^verbatim>\<open>boom\<close>, and the loading add and the failed
  add succeed on the platform, \<^verbatim>\<open>processMessage\<close> makes, in this order, the loading add,
  the failed add, one plain-text send whose text contains \<^verbatim>\<open>(boom)\<close>, and the loading
  remove. The hook may be synchronous or not.
\<close>

theorem processMessage_handler_fault_order:
  assumes "commandHook q = Some hook"
    and "loading (reactions q) = Some l" and "l \<noteq> []"
    and "success (reactions q) = Some s" and "s \<noteq> []"
    and "failed (reactions q) = Some f" and "f \<noteq> []"
    and "handler hook inc = Inl err"
    and "is_Error err" and "err_message err = Some (ascii ''boom'')"
    and "P [] (ReactionsAdd (channelId inc) l (messageId inc)) = None"
    and "P [ReactionsAdd (channelId inc) l (messageId inc)]
           (ReactionsAdd (channelId inc) f (messageId inc)) = None"
  shows "calls (snd (processMessage P q inc init_world)) =
           [ReactionsAdd (channelId inc) l (messageId inc),
            ReactionsAdd (channelId inc) f (messageId inc),
            ChatPostMessage (channelId inc) (Some (messageId inc)) None
              (ascii ''Sorry, something went wrong. (boom)''),
            ReactionsRemove (channelId inc) l (messageId inc)]
         \<and> str_includes (ascii ''(boom)'') (ascii ''Sorry, something went wrong. (boom)'')"
  using assms
  by (simp add: lifecycle_defs init_world_def apology_def truthy_def ascii_def split: prod.splits)

theorem processMessage_handler_fault_order_witness:
  "calls (snd (processMessage platform_ok
                 (registerHandler (sync_hook (Inl boom_error)) (constructor ex_args))
                 ex_incoming init_world)) =
     [ReactionsAdd (ascii ''C01'') (ascii ''thinking_face'') (ascii ''1700000002.000200''),
      ReactionsAdd (ascii ''C01'') (ascii ''x'') (ascii ''1700000002.000200''),
      ChatPostMessage (ascii ''C01'') (Some (ascii ''1700000002.000200'')) None
        (ascii ''Sorry, something went wrong. (boom)''),
      ReactionsRemove (ascii ''C01'') (ascii ''thinking_face'') (ascii ''1700000002.000200'')]"
  using processMessage_handler_fault_order
          [of "registerHandler (sync_hook (Inl boom_error)) (constructor ex_args)"
              "sync_hook (Inl boom_error)" "ascii ''thinking_face''" "ascii ''white_check_mark''"
              "ascii ''x''" ex_incoming boom_error platform_ok]
  by (simp add: sample_defs ascii_def)

theorem handler_fault_kind_counterexample:
  "handler (sync_hook (Inl boom_object)) ex_incoming = Inl boom_object
   \<and> err_message boom_object = Some (ascii ''boom'')
   \<and> calls (snd (processMessage platform_ok
                  (registerHandler (sync_hook (Inl boom_object)) (constructor ex_args))
                  ex_incoming init_world)) =
       [ReactionsAdd (ascii ''C01'') (ascii ''thinking_face'') (ascii ''1700000002.000200''),
        ReactionsAdd (ascii ''C01'') (ascii ''x'') (ascii ''1700000002.000200''),
        ChatPostMessage (ascii ''C01'') (Some (ascii ''1700000002.000200'')) None
          (ascii ''Sorry, something went wrong. ()''),
        ReactionsRemove (ascii ''C01'') (ascii ''thinking_face'') (ascii ''1700000002.000200'')]
   \<and> \<not> str_includes (ascii ''(boom)'') (ascii ''Sorry, something went wrong. ()'')"
  by (simp add: sample_defs lifecycle_defs apology_def ascii_def)

text \<open>
  Where the platform refuses the failed reaction, the fault of that call leaves the
  \<^verbatim>\<open>catch\<close> clause before the apology is sent.
\<close>

lemma failed_add_rejected_run:
  "processMessage (platform_add_fails (ascii ''x''))
     (registerHandler (sync_hook (Inl boom_error)) (constructor ex_args))
     ex_incoming init_world =
   (Some net_fault,
    \<lparr> calls =
        [ReactionsAdd (ascii ''C01'') (ascii ''thinking_face'') (ascii ''1700000002.000200''),
         ReactionsAdd (ascii ''C01'') (ascii ''x'') (ascii ''1700000002.000200''),
         ReactionsRemove (ascii ''C01'') (ascii ''thinking_face'') (ascii ''1700000002.000200'')],
      unhandled = [] \<rparr>)"
  by (simp add: sample_defs platform_add_fails_def lifecycle_defs ascii_def)

text \<open>
  C8, as the code has it. When the hook is synchronous and its handler resolves with
  the empty string, the loading and the success emoji are configured, and the two
  adds succeed on the platform, \<^verbatim>\<open>processMessage\<close> makes the loading add, the success
  add and the loading remove, and no send. An empty buffer is not empty content in
  this sense: it passes \<^verbatim>\<open>if (message)\<close> and is dispatched.
\<close>

theorem processMessage_empty_content:
  assumes "commandHook q = Some hook" and "isSync hook"
    and "handler hook inc = Inr (PString [])"
    and "loading (reactions q) = Some l" and "l \<noteq> []"
    and "success (reactions q) = Some s" and "s \<noteq> []"
    and "P [] (ReactionsAdd (channelId inc) l (messageId inc)) = None"
    and "P [ReactionsAdd (channelId inc) l (messageId inc)]
           (ReactionsAdd (channelId inc) s (messageId inc)) = None"
  shows "calls (snd (processMessage P q inc init_world)) =
           [ReactionsAdd (channelId inc) l (messageId inc),
            ReactionsAdd (channelId inc) s (messageId inc),
            ReactionsRemove (channelId inc) l (messageId inc)]
         \<and> filter is_reply (calls (snd (processMessage P q inc init_world))) = []"
  using assms
  by (simp add: lifecycle_defs init_world_def is_reply_def split: prod.splits)

theorem processMessage_empty_content_witness:
  "calls (snd (processMessage platform_ok
                 (registerHandler (sync_hook (Inr (PString []))) (constructor ex_args))
                 ex_incoming init_world)) =
     [ReactionsAdd (ascii ''C01'') (ascii ''thinking_face'') (ascii ''1700000002.000200''),
      ReactionsAdd (ascii ''C01'') (ascii ''white_check_mark'') (ascii ''1700000002.000200''),
      ReactionsRemove (ascii ''C01'') (ascii ''thinking_face'') (ascii ''1700000002.000200'')]"
  using processMessage_empty_content
          [of "registerHandler (sync_hook (Inr (PString []))) (constructor ex_args)"
              "sync_hook (Inr (PString []))" ex_incoming
              "ascii ''thinking_face''" "ascii ''white_check_mark''" platform_ok]
  by (simp add: sample_defs ascii_def)

theorem empty_buffer_counterexample:
  "isSync (file_hook (Inr (PBuffer [])))
   \<and> calls (snd (processMessage platform_ok
                  (registerHandler (file_hook (Inr (PBuffer []))) (constructor ex_args))
                  ex_incoming init_world)) =
       [ReactionsAdd (ascii ''C01'') (ascii ''thinking_face'') (ascii ''1700000002.000200''),
        FilesUploadV2 (ascii ''C01'') (Some (ascii ''1700000002.000200'')) [] (ascii ''data.txt''),
        ReactionsAdd (ascii ''C01'') (ascii ''white_check_mark'') (ascii ''1700000002.000200''),
        ReactionsRemove (ascii ''C01'') (ascii ''thinking_face'') (ascii ''1700000002.000200'')]"
  by (simp add: sample_defs file_hook_def lifecycle_defs ascii_def)

text \<open>
  Where the platform refuses the success reaction, the fault is caught like one of the
  handler, and the apology is a send.
\<close>

lemma success_add_rejected_run:
  "calls (snd (processMessage (platform_add_fails (ascii ''white_check_mark''))
     (registerHandler (sync_hook (Inr (PString []))) (constructor ex_args))
     ex_incoming init_world)) =
        [ReactionsAdd (ascii ''C01'') (ascii ''thinking_face'') (ascii ''1700000002.000200''),
         ReactionsAdd (ascii ''C01'') (ascii ''white_check_mark'') (ascii ''1700000002.000200''),
         ReactionsAdd (ascii ''C01'') (ascii ''x'') (ascii ''1700000002.000200''),
         ChatPostMessage (ascii ''C01'') (Some (ascii ''1700000002.000200'')) None
           (ascii ''Sorry, something went wrong. (net)''),
         ReactionsRemove (ascii ''C01'') (ascii ''thinking_face'') (ascii ''1700000002.000200'')]"
  by (simp add: sample_defs platform_add_fails_def lifecycle_defs apology_def ascii_def)

subsection \<open>The calls of one run\<close>

text \<open>Each step of the coordinator adds only calls of the kinds listed in \<open>lifecycle_call\<close>.\<close>

lemma when_set_add_calls:
  assumes "list_all (lifecycle_call q inc) (calls w)"
    and "x = loading (reactions q) \<or> x = success (reactions q) \<or> x = failed (reactions q)"
  shows "list_all (lifecycle_call q inc) (calls (snd (when_set x (reaction_add P inc) w)))"
  using assms
  by (auto simp: when_set_def reaction_add_def invoke_def lifecycle_call_def split: option.splits)

lemma when_set_remove_calls:
  assumes "list_all (lifecycle_call q inc) (calls w)"
  shows "list_all (lifecycle_call q inc)
           (calls (snd (when_set (loading (reactions q)) (reaction_remove P inc) w)))"
  using assms
  by (auto simp: when_set_def reaction_remove_def invoke_def lifecycle_call_def split: option.splits)

lemma postMessage_calls:
  assumes "list_all (lifecycle_call q inc) (calls w)"
    and "out_channelId msg = channelId inc" and "out_threadId msg = Some (messageId inc)"
  shows "list_all (lifecycle_call q inc) (calls (snd (postMessage P msg w)))"
  using assms
  by (auto simp: postMessage_def invoke_def lifecycle_call_def Let_def split: payload.splits)

lemma detached_calls: "calls (detached rw) = calls (snd rw)"
  by (simp add: detached_def split: option.splits)

lemma try_block_calls:
  assumes "list_all (lifecycle_call q inc) (calls w)"
  shows "list_all (lifecycle_call q inc) (calls (snd (try_block P q hook inc w)))"
proof (cases "handler hook inc")
  case (Inl err)
  then show ?thesis using assms by (simp add: try_block_def)
next
  case (Inr content)
  let ?msg = "\<lparr> out_channelId = channelId inc, data = content, dataType = hook_dataType hook,
                 out_threadId = Some (messageId inc), block = hook_block hook \<rparr>"
  let ?w' = "if truthy_payload content then detached (postMessage P ?msg w) else w"
  have "list_all (lifecycle_call q inc) (calls ?w')"
    using assms postMessage_calls [of q inc w ?msg P] by (simp add: detached_calls)
  then have "list_all (lifecycle_call q inc)
               (calls (snd (when_set (success (reactions q)) (reaction_add P inc) ?w')))"
    by (rule when_set_add_calls) simp
  with Inr assms show ?thesis by (simp add: try_block_def Let_def)
qed

lemma catch_block_calls:
  assumes "list_all (lifecycle_call q inc) (calls w)"
  shows "list_all (lifecycle_call q inc) (calls (snd (catch_block P q inc err w)))"
proof -
  obtain r w' where step: "when_set (failed (reactions q)) (reaction_add P inc) w = (r, w')"
    by (cases "when_set (failed (reactions q)) (reaction_add P inc) w")
  have w': "list_all (lifecycle_call q inc) (calls w')"
    using when_set_add_calls [OF assms, of "failed (reactions q)" P] step by simp
  show ?thesis
  proof (cases r)
    case None
    with step w' show ?thesis
      by (simp add: catch_block_def postMessage_calls)
  next
    case (Some f)
    with step w' show ?thesis by (simp add: catch_block_def)
  qed
qed

lemma finally_block_calls:
  assumes "list_all (lifecycle_call q inc) (calls w)"
  shows "list_all (lifecycle_call q inc) (calls (snd (finally_block P q inc w)))"
  using assms by (simp add: finally_block_def when_set_remove_calls)

lemma processMessage_calls:
  assumes "list_all (lifecycle_call q inc) (calls w)"
  shows "list_all (lifecycle_call q inc) (calls (snd (processMessage P q inc w)))"
proof (cases "commandHook q")
  case None
  with assms show ?thesis by (simp add: processMessage_def)
next
  case (Some hook)
  obtain r1 w1 where s1: "when_set (loading (reactions q)) (reaction_add P inc) w = (r1, w1)"
    by (cases "when_set (loading (reactions q)) (reaction_add P inc) w")
  have w1: "list_all (lifecycle_call q inc) (calls w1)"
    using when_set_add_calls [OF assms, of "loading (reactions q)" P] s1 by simp
  show ?thesis
  proof (cases r1)
    case (Some f)
    with \<open>commandHook q = Some hook\<close> s1 w1 show ?thesis by (simp add: processMessage_def)
  next
    case None
    obtain r2 w2 where s2: "try_block P q hook inc w1 = (r2, w2)"
      by (cases "try_block P q hook inc w1")
    have w2: "list_all (lifecycle_call q inc) (calls w2)"
      using try_block_calls [OF w1, of P hook] s2 by simp
    obtain r3 w3 where s3:
      "(case r2 of None \<Rightarrow> (None, w2) | Some err \<Rightarrow> catch_block P q inc err w2) = (r3, w3)"
      by (cases "case r2 of None \<Rightarrow> (None, w2) | Some err \<Rightarrow> catch_block P q inc err w2")
    have w3: "list_all (lifecycle_call q inc) (calls w3)"
    proof (cases r2)
      case None
      with s3 w2 show ?thesis by simp
    next
      case (Some err)
      with s3 catch_block_calls [OF w2, of P err] show ?thesis by simp
    qed
    have "list_all (lifecycle_call q inc) (calls (snd (finally_block P q inc w3)))"
      using w3 by (rule finally_block_calls)
    with \<open>commandHook q = Some hook\<close> s1 None s2 s3 show ?thesis
      by (auto simp: processMessage_def split: prod.splits)
  qed
qed

lemma processMessage_calls_init:
  "list_all (lifecycle_call q inc) (calls (snd (processMessage P q inc init_world)))"
  by (rule processMessage_calls) (simp add: init_world_def)

lemma lifecycle_call_target:
  "lifecycle_call q inc c \<Longrightarrow> targets_thread (channelId inc) (Some (messageId inc)) c"
  by (cases c) (simp_all add: lifecycle_call_def targets_thread_def)

text \<open>
  C5, as the code has it. Every send and upload of \<^verbatim>\<open>processMessage\<close>, the success reply
  and the apology alike, goes to the channel of the incoming message and is threaded
  under the incoming message itself: \<^verbatim>\<open>thread_ts\<close> is the \<^verbatim>\<open>messageId\<close> of the incoming
  message, whatever its \<^verbatim>\<open>threadId\<close> is.
\<close>

theorem processMessage_reply_target:
  "list_all (targets_thread (channelId inc) (Some (messageId inc)))
     (calls (snd (processMessage P q inc init_world)))"
  using processMessage_calls_init [of q inc P]
  by (auto simp: list_all_iff intro: lifecycle_call_target)

theorem processMessage_reply_target_witness:
  "list_all (targets_thread (ascii ''C01'') (Some (ascii ''1700000002.000200'')))
     (calls (snd (processMessage platform_ok
                    (registerHandler (sync_hook (Inr (PString (ascii ''hi'')))) (constructor ex_args))
                    ex_incoming init_world)))
   \<and> ChatPostMessage (ascii ''C01'') (Some (ascii ''1700000002.000200'')) None (ascii ''hi'')
       \<in> set (calls (snd (processMessage platform_ok
                    (registerHandler (sync_hook (Inr (PString (ascii ''hi'')))) (constructor ex_args))
                    ex_incoming init_world)))"
  using processMessage_reply_target
          [of ex_incoming platform_ok
              "registerHandler (sync_hook (Inr (PString (ascii ''hi'')))) (constructor ex_args)"]
  by (simp add: sample_defs lifecycle_defs ascii_def)

theorem reply_thread_counterexample:
  "\<not> list_all (targets_thread (channelId ex_incoming) (threadId ex_incoming))
       (calls (snd (processMessage platform_ok
                      (registerHandler (sync_hook (Inr (PString (ascii ''hi'')))) (constructor ex_args))
                      ex_incoming init_world)))"
  by (simp add: sample_defs lifecycle_defs targets_thread_def ascii_def)

text \<open>Each block of the coordinator only adds calls to those made before.\<close>

lemma postMessage_extends: "\<exists>xs. calls (snd (postMessage P msg w)) = calls w @ xs"
  by (simp add: postMessage_def invoke_def Let_def split: payload.splits)

lemma when_set_extends: "\<exists>xs. calls (snd (when_set x (reaction_add P inc) w)) = calls w @ xs"
  by (simp add: when_set_def reaction_add_def invoke_def split: option.splits)

lemma try_block_extends: "\<exists>xs. calls (snd (try_block P q hook inc w)) = calls w @ xs"
proof (cases "handler hook inc")
  case (Inl err)
  then show ?thesis by (simp add: try_block_def)
next
  case (Inr content)
  let ?msg = "\<lparr> out_channelId = channelId inc, data = content, dataType = hook_dataType hook,
                 out_threadId = Some (messageId inc), block = hook_block hook \<rparr>"
  let ?w' = "if truthy_payload content then detached (postMessage P ?msg w) else w"
  have "\<exists>xs. calls ?w' = calls w @ xs"
    using postMessage_extends [of P ?msg w] by (simp add: detached_calls)
  then obtain xs where xs: "calls ?w' = calls w @ xs"
    by blast
  obtain ys where "calls (snd (when_set (success (reactions q)) (reaction_add P inc) ?w'))
                   = calls ?w' @ ys"
    using when_set_extends by blast
  with xs Inr show ?thesis by (simp add: try_block_def Let_def)
qed

lemma catch_block_extends: "\<exists>xs. calls (snd (catch_block P q inc err w)) = calls w @ xs"
proof -
  obtain r w' where step: "when_set (failed (reactions q)) (reaction_add P inc) w = (r, w')"
    by (cases "when_set (failed (reactions q)) (reaction_add P inc) w")
  obtain xs where xs: "calls w' = calls w @ xs"
    using when_set_extends [of "failed (reactions q)" P inc w] step by auto
  show ?thesis
  proof (cases r)
    case None
    obtain ys where "calls (snd (postMessage P
            \<lparr> out_channelId = channelId inc, data = PString (apology err),
              dataType = ascii ''text'', out_threadId = Some (messageId inc),
              block = None \<rparr> w')) = calls w' @ ys"
      using postMessage_extends by blast
    with None step xs show ?thesis by (simp add: catch_block_def)
  next
    case (Some f)
    with step xs show ?thesis by (simp add: catch_block_def)
  qed
qed

text \<open>
  C6, as the code has it. Where the reactions configuration given at construction
  leaves the loading emoji unset or empty, or is absent, the constructor stores
  \<^verbatim>\<open>thinking_face\<close>, and the step is not switched off: with a hook registered,
  \<^verbatim>\<open>processMessage\<close> first makes the loading add with \<^verbatim>\<open>thinking_face\<close>; where the
  platform refuses that call it is the only one, and where it succeeds the run ends
  with the loading remove with \<^verbatim>\<open>thinking_face\<close>.
\<close>

theorem loading_default:
  assumes "\<not> truthy (opt_field (args_reactions args) loading)"
  shows "loading (reactions (constructor args)) = Some (ascii ''thinking_face'')
    \<and> (P [] (ReactionsAdd (channelId inc) (ascii ''thinking_face'') (messageId inc)) \<noteq> None
        \<longrightarrow> calls (snd (processMessage P (registerHandler hook (constructor args)) inc init_world))
            = [ReactionsAdd (channelId inc) (ascii ''thinking_face'') (messageId inc)])
    \<and> (P [] (ReactionsAdd (channelId inc) (ascii ''thinking_face'') (messageId inc)) = None
        \<longrightarrow> (\<exists>mid.
              calls (snd (processMessage P (registerHandler hook (constructor args)) inc init_world))
              = ReactionsAdd (channelId inc) (ascii ''thinking_face'') (messageId inc) # mid
                @ [ReactionsRemove (channelId inc) (ascii ''thinking_face'') (messageId inc)]))"
proof -
  let ?q = "registerHandler hook (constructor args)"
  let ?add = "ReactionsAdd (channelId inc) (ascii ''thinking_face'') (messageId inc)"
  let ?rm = "ReactionsRemove (channelId inc) (ascii ''thinking_face'') (messageId inc)"
  let ?w1 = "init_world\<lparr>calls := [?add]\<rparr>"
  have l: "loading (reactions ?q) = Some (ascii ''thinking_face'')"
    and l': "loading (reactions (constructor args)) = Some (ascii ''thinking_face'')"
    using assms by (simp_all add: registerHandler_def constructor_def or_default_def)
  have ne: "ascii ''thinking_face'' \<noteq> []" by (simp add: ascii_def)
  have h: "commandHook ?q = Some hook" by (simp add: registerHandler_def)
  have first: "when_set (loading (reactions ?q)) (reaction_add P inc) init_world = (P [] ?add, ?w1)"
    using ne by (simp add: l when_set_def reaction_add_def invoke_def init_world_def)
  have fails: "calls (snd (processMessage P ?q inc init_world)) = [?add]" if "P [] ?add \<noteq> None"
    using that first h by (auto simp: processMessage_def)
  have passes: "\<exists>mid. calls (snd (processMessage P ?q inc init_world)) = ?add # mid @ [?rm]"
    if ok: "P [] ?add = None"
  proof -
    obtain r2 w2 where s2: "try_block P ?q hook inc ?w1 = (r2, w2)"
      by (cases "try_block P ?q hook inc ?w1")
    obtain xs where xs: "calls w2 = [?add] @ xs"
      using try_block_extends [of P ?q hook inc ?w1] s2 by auto
    obtain r3 w3 where s3:
      "(case r2 of None \<Rightarrow> (None, w2) | Some err \<Rightarrow> catch_block P ?q inc err w2) = (r3, w3)"
      by (cases "case r2 of None \<Rightarrow> (None, w2) | Some err \<Rightarrow> catch_block P ?q inc err w2")
    obtain ys where ys: "calls w3 = calls w2 @ ys"
    proof (cases r2)
      case None
      with s3 that [of "[]"] show ?thesis by simp
    next
      case (Some err)
      with s3 catch_block_extends [of P ?q inc err w2] that show ?thesis by auto
    qed
    have "calls (snd (finally_block P ?q inc w3)) = calls w3 @ [?rm]"
      using ne by (simp add: finally_block_def l when_set_def reaction_remove_def invoke_def)
    then have "calls (snd (processMessage P ?q inc init_world)) = ?add # (xs @ ys) @ [?rm]"
      using first ok h s2 s3 xs ys by (auto simp: processMessage_def split: prod.splits)
    then show ?thesis by blast
  qed
  show ?thesis using l' fails passes by blast
qed

theorem loading_default_witness:
  "\<not> truthy (opt_field (args_reactions ex_args_no_loading) loading)
   \<and> platform_ok []
       (ReactionsAdd (channelId ex_incoming) (ascii ''thinking_face'') (messageId ex_incoming)) = None
   \<and> loading (reactions (constructor ex_args_no_loading)) = Some (ascii ''thinking_face'')
   \<and> (\<exists>mid. calls (snd (processMessage platform_ok
                  (registerHandler (sync_hook (Inr (PString []))) (constructor ex_args_no_loading))
                  ex_incoming init_world))
        = ReactionsAdd (channelId ex_incoming) (ascii ''thinking_face'') (messageId ex_incoming) # mid
          @ [ReactionsRemove (channelId ex_incoming) (ascii ''thinking_face'') (messageId ex_incoming)])"
proof -
  have h1: "\<not> truthy (opt_field (args_reactions ex_args_no_loading) loading)"
    by (simp add: ex_args_no_loading_def opt_field_def truthy_def)
  have h2: "platform_ok []
       (ReactionsAdd (channelId ex_incoming) (ascii ''thinking_face'') (messageId ex_incoming)) = None"
    by (simp add: platform_ok_def)
  show ?thesis
    using h1 h2 loading_default [OF h1, of platform_ok ex_incoming "sync_hook (Inr (PString []))"]
    by blast
qed

theorem loading_default_counterexample:
  "opt_field (args_reactions ex_args_no_loading) loading = None
   \<and> calls (snd (processMessage platform_ok
                  (registerHandler (sync_hook (Inr (PString []))) (constructor ex_args_no_loading))
                  ex_incoming init_world)) =
       [ReactionsAdd (ascii ''C01'') (ascii ''thinking_face'') (ascii ''1700000002.000200''),
        ReactionsAdd (ascii ''C01'') (ascii ''tada'') (ascii ''1700000002.000200''),
        ReactionsRemove (ascii ''C01'') (ascii ''thinking_face'') (ascii ''1700000002.000200'')]"
  by (simp add: sample_defs lifecycle_defs ascii_def)

text \<open>
  C2, as the code has it. Let a fault be raised inside the protected region, and let
  the add of the failed reaction, where one is configured, succeed. Then the sends
  that \<^verbatim>\<open>processMessage\<close> makes from there on are exactly one plain-text message,
  \<^verbatim>\<open>Sorry, something went wrong. (<message>)\<close>, in which the message of the fault stands
  when the fault is an \<^verbatim>\<open>Error\<close> that has one, and nothing otherwise.
\<close>

theorem processMessage_fault_apology:
  assumes "commandHook q = Some hook"
    and "when_set (loading (reactions q)) (reaction_add P inc) w = (None, w1)"
    and "try_block P q hook inc w1 = (Some err, w2)"
    and "when_set (failed (reactions q)) (reaction_add P inc) w2 = (None, w3)"
  shows "filter is_reply (drop (length (calls w2)) (calls (snd (processMessage P q inc w)))) =
           [ChatPostMessage (channelId inc) (Some (messageId inc)) None
              (ascii ''Sorry, something went wrong. (''
               @ (case err_message err of
                    None \<Rightarrow> []
                  | Some m \<Rightarrow> if is_Error err then m else [])
               @ ascii '')'')]"
proof -
  obtain fa where fa: "calls w3 = calls w2 @ fa" "filter is_reply fa = []"
    using assms(4)
    by (auto simp: when_set_def reaction_add_def invoke_def is_reply_def
             split: option.splits if_splits)
  let ?send = "ChatPostMessage (channelId inc) (Some (messageId inc)) None (apology err)"
  have c: "catch_block P q inc err w2 = (P (calls w3) ?send, w3\<lparr>calls := calls w3 @ [?send]\<rparr>)"
    using assms(4) by (simp add: catch_block_def postMessage_def invoke_def)
  have "\<exists>rm. calls (snd (finally_block P q inc (w3\<lparr>calls := calls w3 @ [?send]\<rparr>))) =
               calls w3 @ [?send] @ rm \<and> filter is_reply rm = []"
    by (simp add: finally_block_def when_set_def reaction_remove_def invoke_def is_reply_def
             split: option.splits)
  then obtain rm where rm:
    "calls (snd (finally_block P q inc (w3\<lparr>calls := calls w3 @ [?send]\<rparr>))) =
       calls w3 @ [?send] @ rm" "filter is_reply rm = []"
    by blast
  have "snd (processMessage P q inc w) =
          snd (finally_block P q inc (w3\<lparr>calls := calls w3 @ [?send]\<rparr>))"
    using assms(1-3) c by (simp add: processMessage_def split: prod.splits)
  then have "calls (snd (processMessage P q inc w)) = calls w3 @ [?send] @ rm"
    using rm(1) by simp
  then have "calls (snd (processMessage P q inc w)) = calls w2 @ fa @ [?send] @ rm"
    using fa(1) by simp
  moreover have "apology err =
      ascii ''Sorry, something went wrong. (''
      @ (case err_message err of None \<Rightarrow> [] | Some m \<Rightarrow> if is_Error err then m else [])
      @ ascii '')''"
    by (simp add: apology_def truthy_def split: option.splits)
  ultimately show ?thesis
    using fa(2) rm(2) by (simp add: is_reply_def)
qed

theorem processMessage_fault_apology_witness:
  "filter is_reply
     (drop (length [ReactionsAdd (ascii ''C01'') (ascii ''thinking_face'') (ascii ''1700000002.000200'')])
        (calls (snd (processMessage platform_ok
                       (registerHandler (sync_hook (Inl boom_error)) (constructor ex_args))
                       ex_incoming init_world)))) =
     [ChatPostMessage (ascii ''C01'') (Some (ascii ''1700000002.000200'')) None
        (ascii ''Sorry, something went wrong. (boom)'')]"
  using processMessage_fault_apology
          [of "registerHandler (sync_hook (Inl boom_error)) (constructor ex_args)"
              "sync_hook (Inl boom_error)" platform_ok ex_incoming init_world
              "\<lparr> calls = [ReactionsAdd (ascii ''C01'') (ascii ''thinking_face'')
                              (ascii ''1700000002.000200'')], unhandled = [] \<rparr>"
              boom_error
              "\<lparr> calls = [ReactionsAdd (ascii ''C01'') (ascii ''thinking_face'')
                              (ascii ''1700000002.000200'')], unhandled = [] \<rparr>"
              "\<lparr> calls = [ReactionsAdd (ascii ''C01'') (ascii ''thinking_face'')
                              (ascii ''1700000002.000200''),
                          ReactionsAdd (ascii ''C01'') (ascii ''x'')
                              (ascii ''1700000002.000200'')], unhandled = [] \<rparr>"]
  by (simp add: sample_defs when_set_def reaction_add_def invoke_def try_block_def ascii_def)

theorem apology_kind_counterexample:
  "err_message boom_object = Some (ascii ''boom'')
   \<and> filter is_reply
       (calls (snd (processMessage platform_ok
                      (registerHandler (sync_hook (Inl boom_object)) (constructor ex_args))
                      ex_incoming init_world))) =
       [ChatPostMessage (ascii ''C01'') (Some (ascii ''1700000002.000200'')) None
          (ascii ''Sorry, something went wrong. ()'')]
   \<and> ascii ''Sorry, something went wrong. ()'' \<noteq> ascii ''Sorry, something went wrong. (boom)''"
  by (simp add: sample_defs lifecycle_defs apology_def is_reply_def ascii_def)

text \<open>
  C7, at a run in which the platform refuses the success reply. The reply is sent
  without \<^verbatim>\<open>await\<close>, so its rejection reaches no \<^verbatim>\<open>catch\<close>: the success reaction is
  added, no failed reaction and no apology follow, \<^verbatim>\<open>processMessage\<close> is fulfilled and
  the rejection stays unhandled.
\<close>

theorem success_reply_fault_not_caught:
  "processMessage platform_send_fails
     (registerHandler (sync_hook (Inr (PString (ascii ''hi'')))) (constructor ex_args))
     ex_incoming init_world =
   (None,
    \<lparr> calls =
        [ReactionsAdd (ascii ''C01'') (ascii ''thinking_face'') (ascii ''1700000002.000200''),
         ChatPostMessage (ascii ''C01'') (Some (ascii ''1700000002.000200'')) None (ascii ''hi''),
         ReactionsAdd (ascii ''C01'') (ascii ''white_check_mark'') (ascii ''1700000002.000200''),
         ReactionsRemove (ascii ''C01'') (ascii ''thinking_face'') (ascii ''1700000002.000200'')],
      unhandled = [net_fault] \<rparr>)"
  by (simp add: sample_defs lifecycle_defs ascii_def)

section \<open>The text transformer: properties\<close>

text \<open>
  C1, at the sample text. The second replacement, \<^verbatim>\<open>/^\s*/gm\<close>, also takes the line
  feed of an empty line, since \<^verbatim>\<open>\s\<close> matches it: the empty line that the first
  replacement has just normalised is gone from the result, which therefore differs
  from the expected text with its \<^verbatim>\<open>\n\n\<close> after the title.
\<close>

lemma sample_output:
  "markdownToMrkdwn
     (ascii ''# Title\<newline>\<newline>Some **bold** and _italic_ and `code`.\<newline>* item one\<newline>1. item two\<newline>[link](http://x)'')
   = ascii ''*Title*\<newline>Some *bold* and _italic_ and `code`.\<newline>''
     @ bullet # ascii '' item one\<newline>''
     @ bullet # ascii '' item two\<newline><http://x|link>''"
  by code_simp

theorem markdownToMrkdwn_sample:
  "markdownToMrkdwn
     (ascii ''# Title\<newline>\<newline>Some **bold** and _italic_ and `code`.\<newline>* item one\<newline>1. item two\<newline>[link](http://x)'')
   = ascii ''*Title*\<newline>Some *bold* and _italic_ and `code`.\<newline>''
     @ bullet # ascii '' item one\<newline>''
     @ bullet # ascii '' item two\<newline><http://x|link>''
   \<and> markdownToMrkdwn
     (ascii ''# Title\<newline>\<newline>Some **bold** and _italic_ and `code`.\<newline>* item one\<newline>1. item two\<newline>[link](http://x)'')
   \<noteq> ascii ''*Title*\<newline>\<newline>Some *bold* and _italic_ and `code`.\<newline>''
     @ bullet # ascii '' item one\<newline>''
     @ bullet # ascii '' item two\<newline><http://x|link>''"
proof -
  have "ascii ''*Title*\<newline>Some *bold* and _italic_ and `code`.\<newline>''
          @ bullet # ascii '' item one\<newline>''
          @ bullet # ascii '' item two\<newline><http://x|link>''
        \<noteq> ascii ''*Title*\<newline>\<newline>Some *bold* and _italic_ and `code`.\<newline>''
          @ bullet # ascii '' item one\<newline>''
          @ bullet # ascii '' item two\<newline><http://x|link>''"
    by (simp add: ascii_def)
  then show ?thesis
    by (simp only: sample_output simp_thms)
qed

text \<open>Single rules, once and on their own output.\<close>

lemma header1_once: "markdownToMrkdwn (ascii ''# Title'') = ascii ''*Title*''"
  by code_simp

lemma header2_once: "markdownToMrkdwn (ascii ''## Title'') = ascii ''*Title*''"
  by code_simp

lemma header3_once: "markdownToMrkdwn (ascii ''### Title'') = ascii ''*Title*''"
  by code_simp

lemma header_again: "markdownToMrkdwn (ascii ''*Title*'') = ascii ''*Title*''"
  by code_simp

lemma bold_once: "markdownToMrkdwn (ascii ''some **bold** text'') = ascii ''some *bold* text''"
  by code_simp

lemma bold_again: "markdownToMrkdwn (ascii ''some *bold* text'') = ascii ''some *bold* text''"
  by code_simp

lemma unordered_once:
  "markdownToMrkdwn (ascii ''* one\<newline>* two'') = bullet # ascii '' one\<newline>'' @ bullet # ascii '' two''"
  by code_simp

lemma ordered_once:
  "markdownToMrkdwn (ascii ''1. one\<newline>22. two'') = bullet # ascii '' one\<newline>'' @ bullet # ascii '' two''"
  by code_simp

lemma list_again:
  "markdownToMrkdwn (bullet # ascii '' one\<newline>'' @ bullet # ascii '' two'')
   = bullet # ascii '' one\<newline>'' @ bullet # ascii '' two''"
  by code_simp

text \<open>
  Sample inputs of the header, bold and list rules: on each of them, applying the
  transformer twice gives what applying it once gives.
\<close>

lemma markdownToMrkdwn_idempotent_samples:
  "markdownToMrkdwn (ascii ''# Title'') = ascii ''*Title*''
   \<and> markdownToMrkdwn (markdownToMrkdwn (ascii ''# Title'')) = markdownToMrkdwn (ascii ''# Title'')
   \<and> markdownToMrkdwn (ascii ''## Title'') = ascii ''*Title*''
   \<and> markdownToMrkdwn (markdownToMrkdwn (ascii ''## Title'')) = markdownToMrkdwn (ascii ''## Title'')
   \<and> markdownToMrkdwn (ascii ''### Title'') = ascii ''*Title*''
   \<and> markdownToMrkdwn (markdownToMrkdwn (ascii ''### Title''))
       = markdownToMrkdwn (ascii ''### Title'')
   \<and> markdownToMrkdwn (ascii ''some **bold** text'') = ascii ''some *bold* text''
   \<and> markdownToMrkdwn (markdownToMrkdwn (ascii ''some **bold** text''))
       = markdownToMrkdwn (ascii ''some **bold** text'')
   \<and> markdownToMrkdwn (ascii ''* one\<newline>* two'')
       = bullet # ascii '' one\<newline>'' @ bullet # ascii '' two''
   \<and> markdownToMrkdwn (markdownToMrkdwn (ascii ''* one\<newline>* two''))
       = markdownToMrkdwn (ascii ''* one\<newline>* two'')
   \<and> markdownToMrkdwn (ascii ''1. one\<newline>22. two'')
       = bullet # ascii '' one\<newline>'' @ bullet # ascii '' two''
   \<and> markdownToMrkdwn (markdownToMrkdwn (ascii ''1. one\<newline>22. two''))
       = markdownToMrkdwn (ascii ''1. one\<newline>22. two'')"
  by (simp only: header1_once header2_once header3_once header_again bold_once bold_again
        unordered_once ordered_once list_again simp_thms)

section \<open>The text transformer on plain content\<close>

subsection \<open>Where a match can begin\<close>

lemma lastp_simps [simp]:
  "lastp p [] = p" "lastp p (c # cs) = lastp (Some c) cs" "lastp p (t @ [c]) = Some c"
  by (simp_all add: lastp_def)










subsection \<open>The first match of a star\<close>


declare rmatch.simps [simp del]









subsection \<open>Replacements that leave a text as it is\<close>















subsection \<open>Replacements that convert\<close>





subsection \<open>The whole transformer\<close>















end
